theory Spec2Isabelle
  imports Complex_Main "HOL-Library.Char_ord" "HOL-Library.List_Lexorder" "HOL-Library.Multiset"
begin

section \<open>Severity levels (data_class/ValidationStatus.py)\<close>

text \<open>
  The enumeration \<open>ValidationStatus\<close> with its four outcome levels. The class-level table
  \<open>SEVERITY_ORDER\<close> maps the value of each level to a rank; it is modelled as a function
  on the levels.
\<close>

datatype ValidationStatus = PASS | FAIL | WARNING | SKIP

fun SEVERITY_ORDER :: "ValidationStatus \<Rightarrow> nat" where
  "SEVERITY_ORDER SKIP = 0"
| "SEVERITY_ORDER PASS = 1"
| "SEVERITY_ORDER WARNING = 2"
| "SEVERITY_ORDER FAIL = 3"

definition raise_status_level_to :: "ValidationStatus \<Rightarrow> ValidationStatus \<Rightarrow> ValidationStatus" where
  "raise_status_level_to self new_status =
     (let new_status_value = SEVERITY_ORDER new_status;
          current_status_value = SEVERITY_ORDER self
      in if new_status_value > current_status_value then new_status else self)"

section \<open>Validation issues (data_class/ValidationIssue.py)\<close>

text \<open>
  The fields \<open>source_value\<close> and \<open>target_value\<close> are untyped in the source. The code stores
  there either nothing, a row count, or a whole sampled data frame; the contents of a frame
  are never read back and are not modelled. The field \<open>additional_info\<close> is never written.
\<close>

datatype issue_value = NoValue | CountValue int | SampleValue

record ValidationIssue =
  issue_type :: string
  description :: string
  severity :: ValidationStatus
  source_value :: issue_value
  target_value :: issue_value


section \<open>Python primitives used by the code\<close>

text \<open>
  Strings are lists of characters with code points below 256. \<open>strip\<close> is \<open>str.strip()\<close>
  (it removes leading and trailing white space), \<open>lower\<close> is \<open>str.lower()\<close>, \<open>join\<close> is
  \<open>sep.join(xs)\<close>, and \<open>fstr\<close> is the text an f-string puts for an optional string.
\<close>

datatype exception = ValueError string | TypeError string | KeyError string | ReError string

definition is_space :: "char \<Rightarrow> bool" where
  "is_space c = (c \<in> set [CHR 0x09, CHR 0x0A, CHR 0x0B, CHR 0x0C, CHR 0x0D,
                            CHR 0x1C, CHR 0x1D, CHR 0x1E, CHR 0x1F, CHR 0x20, CHR 0x85, CHR 0xA0])"

definition strip :: "string \<Rightarrow> string" where
  "strip s = rev (dropWhile is_space (rev (dropWhile is_space s)))"

definition lower_char :: "char \<Rightarrow> char" where
  "lower_char c =
     (let n = (of_char c :: nat)
      in if (65 \<le> n \<and> n \<le> 90) \<or> (192 \<le> n \<and> n \<le> 222 \<and> n \<noteq> 215)
         then char_of (n + 32) else c)"

definition lower :: "string \<Rightarrow> string" where
  "lower s = map lower_char s"

fun join :: "string \<Rightarrow> string list \<Rightarrow> string" where
  "join sep [] = []"
| "join sep [x] = x"
| "join sep (x # y # ys) = x @ sep @ join sep (y # ys)"

fun fstr :: "string option \<Rightarrow> string" where
  "fstr None = ''None''"
| "fstr (Some s) = s"

text \<open>\<open>not s\<close> for an optional string: true for \<open>None\<close> and for the empty string.\<close>

definition falsy_str :: "string option \<Rightarrow> bool" where
  "falsy_str s = (s = None \<or> s = Some [])"

section \<open>Table mappings (data_class/TableMapping.py)\<close>

text \<open>
  A rule of \<open>rule_based_data_validation\<close> is a dictionary from option names to strings or
  booleans; dictionaries keep insertion order, so they are association lists. The
  distribution specifications, read only by the distribution validator, are left out.
  The field \<open>group\<close> is named \<open>group_name\<close>.
\<close>

datatype rule_value = RStr string | RBool bool

type_synonym rule = "(string \<times> rule_value) list"

record TableMapping =
  key_columns :: "string list option"
  key_columns_cast_types :: "string option list option"
  source_table :: "string option"
  target_table :: "string option"
  group_name :: "string option"
  sample_size :: "int option"
  data_transformation_rules :: "string list option"
  number_of_set_sample_records_for_detailed_report :: "int option"
  max_item_length_for_html_report :: "int option"
  max_word_length_for_html_report :: "int option"
  rule_based_data_validation :: "(string \<times> rule) list option"
  unique_data_mapping_id :: "string option"
  extra_key_columns_sets :: "string list list option"
  exclude_columns :: "string list option"
  custom_mappings :: "(string \<times> string) list option"

text \<open>The dataclass with every field at its default \<open>None\<close>, before \<open>__post_init__\<close> runs.\<close>

definition TableMapping_defaults :: TableMapping where
  "TableMapping_defaults =
     \<lparr> key_columns = None, key_columns_cast_types = None, source_table = None,
       target_table = None, group_name = None, sample_size = None,
       data_transformation_rules = None,
       number_of_set_sample_records_for_detailed_report = None,
       max_item_length_for_html_report = None, max_word_length_for_html_report = None,
       rule_based_data_validation = None, unique_data_mapping_id = None,
       extra_key_columns_sets = None, exclude_columns = None, custom_mappings = None \<rparr>"

text \<open>
  \<open>__post_init__\<close>. The identifier is built from \<open>set(self.key_columns)\<close>; the order in which
  a Python set of strings is iterated is fixed within one interpreter process but is not
  specified by the language (it follows the hash values, which are randomised per process).
  The parameter \<open>set_iter\<close> stands for that order: \<open>set_iter xs\<close> is \<open>list(set(xs))\<close>.
  The two \<open>raise\<close> paths are the \<open>Inl\<close> results: the explicit \<open>ValueError\<close>, and the
  \<open>TypeError\<close> of \<open>",".join(None)\<close>.
\<close>

definition clean_key_columns :: "string list \<Rightarrow> string list" where
  "clean_key_columns cols = [strip col. col \<leftarrow> cols, strip col \<noteq> []]"

definition post_init :: "(string list \<Rightarrow> string list) \<Rightarrow> TableMapping \<Rightarrow> exception + TableMapping" where
  "post_init set_iter self0 =
     (if falsy_str (source_table self0) \<and> falsy_str (target_table self0)
      then Inl (ValueError ''At least one of source_table or target_table must be provided.'')
      else
        let self1 = (if falsy_str (source_table self0)
                     then self0\<lparr>source_table := target_table self0\<rparr>
                     else if falsy_str (target_table self0)
                     then self0\<lparr>target_table := source_table self0\<rparr>
                     else self0);
            self2 = (if key_columns self1 = None
                     then self1\<lparr>key_columns := Some []\<rparr> else self1);
            cleaned = clean_key_columns (case key_columns self2 of Some cols \<Rightarrow> cols | None \<Rightarrow> []);
            self3 = self2\<lparr>key_columns := Some cleaned\<rparr>;
            self4 = (if exclude_columns self3 = None
                     then self3\<lparr>exclude_columns := Some []\<rparr> else self3);
            self5 = (if custom_mappings self4 = None
                     then self4\<lparr>custom_mappings := Some []\<rparr> else self4)
        in if falsy_str (unique_data_mapping_id self5)
           then (case data_transformation_rules self5 of
                   None \<Rightarrow> Inl (TypeError ''can only join an iterable'')
                 | Some rules \<Rightarrow>
                     Inr (self5\<lparr>unique_data_mapping_id :=
                            Some (fstr (source_table self5) @ ''|'' @ fstr (target_table self5) @ ''|''
                                  @ join '','' (set_iter cleaned) @ ''|'' @ join '','' rules)\<rparr>))
           else Inr self5)"


section \<open>Numbers as text\<close>

text \<open>
  Python floats are modelled as exact rationals throughout: the row-count percentage and
  the success rates are computed and compared as exact values, and the rounding of the
  floating-point operations is not modelled. \<open>show_int\<close> is \<open>str\<close> on integers and
  \<open>format_fixed d\<close> is the fixed-point format \<open>:.df\<close> of an f-string, rounding the exact
  value half to even.
\<close>

definition digit_char :: "nat \<Rightarrow> char" where
  "digit_char d = char_of (48 + d)"

fun show_nat :: "nat \<Rightarrow> string" where
  "show_nat n = (if n < 10 then [digit_char n] else show_nat (n div 10) @ [digit_char (n mod 10)])"

declare show_nat.simps [simp del]

definition show_int :: "int \<Rightarrow> string" where
  "show_int i = (if i < 0 then CHR ''-'' # show_nat (nat (- i)) else show_nat (nat i))"

definition round_half_even :: "rat \<Rightarrow> int" where
  "round_half_even q =
     (let f = \<lfloor>q\<rfloor>; r = q - of_int f
      in if r < 1 / 2 then f else if 1 / 2 < r then f + 1 else if even f then f else f + 1)"

definition format_fixed :: "nat \<Rightarrow> rat \<Rightarrow> string" where
  "format_fixed d q =
     (let n = nat (round_half_even (\<bar>q\<bar> * 10 ^ d));
          fs = show_nat (n mod 10 ^ d)
      in (if q < 0 then ''-'' else []) @ show_nat (n div 10 ^ d)
         @ (if d = 0 then [] else ''.'' @ replicate (d - length fs) (CHR ''0'') @ fs))"

text \<open>\<open>int(x)\<close> on a float truncates toward zero.\<close>

definition py_int :: "rat \<Rightarrow> int" where
  "py_int q = (if 0 \<le> q then \<lfloor>q\<rfloor> else - \<lfloor>- q\<rfloor>)"

definition quote :: string where
  "quote = [CHR 0x27]"

text \<open>\<open>str(e)\<close> of an exception; a \<open>KeyError\<close> shows its key in quotes.\<close>

fun exception_text :: "exception \<Rightarrow> string" where
  "exception_text (ValueError m) = m"
| "exception_text (TypeError m) = m"
| "exception_text (KeyError k) = quote @ k @ quote"
| "exception_text (ReError m) = m"

text \<open>\<open>s.splitlines()[0]\<close> for a non-empty string \<open>s\<close>.\<close>

definition is_linebreak :: "char \<Rightarrow> bool" where
  "is_linebreak c = (c \<in> set [CHR 0x0A, CHR 0x0B, CHR 0x0C, CHR 0x0D,
                                CHR 0x1C, CHR 0x1D, CHR 0x1E, CHR 0x85])"

definition first_line :: "string \<Rightarrow> string" where
  "first_line s = takeWhile (\<lambda>c. \<not> is_linebreak c) s"

section \<open>Sample comparison results (data_class/CompareSampleDataResult.py)\<close>

text \<open>
  The counts are plain integers, as in the dataclass. The embedded rule-based and
  distribution-based results and the bounded key samples kept for the report are left out;
  \<open>sample_size\<close> and \<open>data_match_validation_issues\<close> carry the prefix \<open>cs_\<close>.
\<close>

record CompareSampleDataResult =
  table_mapping :: TableMapping
  cs_sample_size :: "int option"
  source_sample_count :: int
  target_sample_count :: int
  source_sample_set_count :: int
  target_sample_set_count :: int
  matching_set_record_count :: int
  cs_data_match_validation_issues :: "ValidationIssue list"

definition success_rate_of_2_sets :: "CompareSampleDataResult \<Rightarrow> rat" where
  "success_rate_of_2_sets self =
     (let denominator = max (source_sample_set_count self) (target_sample_set_count self)
      in if denominator = 0 then 0
         else (of_int (matching_set_record_count self) / of_int denominator) * 100)"

definition interpolated_success_rate_of_tables_from_success_rate_of_2_sets ::
  "CompareSampleDataResult \<Rightarrow> rat" where
  "interpolated_success_rate_of_tables_from_success_rate_of_2_sets self =
     (let nominator = min (source_sample_count self) (target_sample_count self);
          denominator = max (source_sample_count self) (target_sample_count self)
      in if denominator = 0 then 0
         else (success_rate_of_2_sets self * of_int nominator) / of_int denominator)"

definition interpolated_matching_records_of_tables_from_success_rate ::
  "CompareSampleDataResult \<Rightarrow> int" where
  "interpolated_matching_records_of_tables_from_success_rate self =
     (let min_sample_count = min (source_sample_count self) (target_sample_count self);
          min_sample_count =
            (case cs_sample_size self of
               Some n \<Rightarrow> if n \<noteq> 0 \<and> 0 < n then min min_sample_count n else min_sample_count
             | None \<Rightarrow> min_sample_count)
      in py_int (success_rate_of_2_sets self * of_int min_sample_count / 100))"


section \<open>Comparing the sampled key sets (DatabaseTransitionValidator._compare_sample_data)\<close>

text \<open>
  A sample is the list of rows that \<open>_get_sample_data\<close> fetched, each row restricted to the
  key columns; the fetch may also raise, or return \<open>None\<close> when a connection is not
  configured. \<open>build_set_from_sample_and_columns\<close> turns the rows into a set of tuples;
  the value transformation chosen by the mapping's transformation rules is the parameter
  \<open>tr\<close> (\<open>None\<close> when no recognised rule is requested, and the rows are taken as they are).
  \<open>sub_validation\<close> is the exception, if any, that the rule-based or distribution-based
  validators raise between the two fetches and the building of the sets.
\<close>

definition build_set_from_sample_and_columns :: "('v \<Rightarrow> 'v) option \<Rightarrow> 'v list list \<Rightarrow> 'v list set" where
  "build_set_from_sample_and_columns tr rows =
     (case tr of Some f \<Rightarrow> set (map (map f) rows) | None \<Rightarrow> set rows)"

text \<open>The key sets at the point where the result is assembled.\<close>

definition source_keys_set :: "('v \<Rightarrow> 'v) option \<Rightarrow> 'v list list option \<Rightarrow> 'v list list option \<Rightarrow> 'v list set" where
  "source_keys_set tr source_sample target_sample =
     (case (source_sample, target_sample) of
        (Some s, Some t) \<Rightarrow> build_set_from_sample_and_columns tr s
      | _ \<Rightarrow> {})"

definition target_keys_set :: "('v \<Rightarrow> 'v) option \<Rightarrow> 'v list list option \<Rightarrow> 'v list list option \<Rightarrow> 'v list set" where
  "target_keys_set tr source_sample target_sample =
     (case (source_sample, target_sample) of
        (Some s, Some t) \<Rightarrow> build_set_from_sample_and_columns tr t
      | _ \<Rightarrow> {})"

definition len_frame :: "'v list list option \<Rightarrow> exception + int" where
  "len_frame sample =
     (case sample of
        None \<Rightarrow> Inl (TypeError (''object of type '' @ quote @ ''NoneType'' @ quote @ '' has no len()''))
      | Some rows \<Rightarrow> Inr (int (length rows)))"

definition comparison_error_result ::
  "TableMapping \<Rightarrow> int option \<Rightarrow> int \<Rightarrow> int \<Rightarrow> exception \<Rightarrow> CompareSampleDataResult" where
  "comparison_error_result mapping eff_sample_size n_source n_target e =
     (let error_message = ''Error comparing sample data for '' @ fstr (source_table mapping) @ '': ''
            @ (if exception_text e \<noteq> [] then first_line (exception_text e) else ''Unknown error'')
      in \<lparr> table_mapping = mapping, cs_sample_size = eff_sample_size,
           source_sample_count = n_source, target_sample_count = n_target,
           source_sample_set_count = 0, target_sample_set_count = 0,
           matching_set_record_count = 0,
           cs_data_match_validation_issues =
             [\<lparr> issue_type = ''Error_comparing_sample_data'', description = error_message,
                severity = FAIL, source_value = SampleValue, target_value = SampleValue \<rparr>] \<rparr>)"

definition compare_sample_data ::
  "('v \<Rightarrow> 'v) option \<Rightarrow> TableMapping \<Rightarrow> int option
     \<Rightarrow> exception + 'v list list option \<Rightarrow> exception + 'v list list option
     \<Rightarrow> exception option \<Rightarrow> exception + CompareSampleDataResult" where
  "compare_sample_data tr mapping sample_size0 source_fetch target_fetch sub_validation =
     (let eff_sample_size = (case sample_size mapping of Some n \<Rightarrow> Some n | None \<Rightarrow> sample_size0)
      in case source_fetch of
           Inl e \<Rightarrow> Inr (comparison_error_result mapping eff_sample_size 0 0 e)
         | Inr source_sample \<Rightarrow>
            (case target_fetch of
               Inl e \<Rightarrow>
                 (case len_frame source_sample of
                    Inl e' \<Rightarrow> Inl e'
                  | Inr n \<Rightarrow> Inr (comparison_error_result mapping eff_sample_size n 0 e))
             | Inr target_sample \<Rightarrow>
                 (case sub_validation of
                    Some e \<Rightarrow>
                      (case len_frame source_sample of
                         Inl e' \<Rightarrow> Inl e'
                       | Inr n \<Rightarrow>
                          (case len_frame target_sample of
                             Inl e' \<Rightarrow> Inl e'
                           | Inr m \<Rightarrow> Inr (comparison_error_result mapping eff_sample_size n m e)))
                  | None \<Rightarrow>
                      let source_keys = source_keys_set tr source_sample target_sample;
                          target_keys = target_keys_set tr source_sample target_sample;
                          matching_keys_set = source_keys \<inter> target_keys
                      in Inr \<lparr> table_mapping = mapping, cs_sample_size = eff_sample_size,
                               source_sample_count =
                                 (case source_sample of Some rows \<Rightarrow> int (length rows) | None \<Rightarrow> 0),
                               target_sample_count =
                                 (case target_sample of Some rows \<Rightarrow> int (length rows) | None \<Rightarrow> 0),
                               source_sample_set_count = int (card source_keys),
                               target_sample_set_count = int (card target_keys),
                               matching_set_record_count = int (card matching_keys_set),
                               cs_data_match_validation_issues = [] \<rparr>)))"

section \<open>Per-table data results (data_class/DataMatchValidationResult.py)\<close>

text \<open>
  Fields that share a name with a field of \<open>TableMapping\<close> carry the prefix \<open>dm_\<close>. The
  execution time is left out.
\<close>

record DataMatchValidationResult =
  table_name :: "string option"
  dm_source_table :: "string option"
  dm_target_table :: "string option"
  dm_key_columns :: "string list option"
  dm_unique_data_mapping_id :: "string option"
  status :: ValidationStatus
  dm_group :: "string option"
  source_table_exist :: bool
  target_table_exist :: bool
  source_table_or_view :: "string option"
  target_table_or_view :: "string option"
  source_count :: int
  target_count :: int
  matching_records :: int
  dm_sample_size :: "int option"
  dm_data_transformation_rules :: "string list option"
  row_count_validation_issues :: "ValidationIssue list"
  data_match_validation_issues :: "ValidationIssue list"
  compare_sample_data_result :: "CompareSampleDataResult option"

section \<open>Validating one table mapping (DatabaseTransitionValidator._validate_single_table_data)\<close>

text \<open>
  The settings the task reads, from the \<open>validation_settings\<close> dictionary: an absent entry
  is \<open>None\<close> and the code's default applies. The dictionary itself may be absent from the
  settings; then the plain subscript \<open>self.settings["validation_settings"]\<close> raises.
\<close>

record validation_settings =
  enable_row_count_validation :: "bool option"
  row_count_difference_threshold_failure :: "rat option"
  row_count_difference_threshold_success :: "rat option"
  data_validation_threshold_warning :: "rat option"
  data_validation_threshold_success :: "rat option"

text \<open>
  What the two databases answer for one mapping: whether the table or view exists and
  which of the two it is, the answer of \<open>_get_table_count\<close> (\<open>None\<close> when the query failed),
  and the outcome of fetching the sample.
\<close>

record 'v db_answers =
  source_exists :: bool
  source_kind :: "string option"
  target_exists :: bool
  target_kind :: "string option"
  source_rows :: "int option"
  target_rows :: "int option"
  source_fetch :: "exception + 'v list list option"
  target_fetch :: "exception + 'v list list option"
  sub_validation :: "exception option"

definition to_positive_integer :: "int option \<Rightarrow> int" where
  "to_positive_integer v = (case v of None \<Rightarrow> 0 | Some n \<Rightarrow> max 0 n)"

definition count_value :: "int option \<Rightarrow> issue_value" where
  "count_value c = (case c of None \<Rightarrow> NoValue | Some n \<Rightarrow> CountValue n)"

text \<open>The issues raised for one side (\<open>source\<close> or \<open>target\<close>) before the counts are compared.\<close>

definition side_issues :: "string \<Rightarrow> string \<Rightarrow> bool \<Rightarrow> string option \<Rightarrow> int option \<Rightarrow> ValidationIssue list" where
  "side_issues side Side exist name cnt =
     (if \<not> exist then
        [\<lparr> issue_type = side @ ''_table_missing'',
           description = ''Could not find '' @ side @ '' table '' @ quote @ fstr name @ quote @ ''.'',
           severity = FAIL, source_value = NoValue, target_value = NoValue \<rparr>]
      else case cnt of
        None \<Rightarrow> []
      | Some n \<Rightarrow>
          if n < 0 then
            [\<lparr> issue_type = side @ ''_table_count_error'',
               description = ''Could not retrieve row count for '' @ side @ '' table ''
                             @ quote @ fstr name @ quote @ ''.'',
               severity = FAIL, source_value = NoValue, target_value = NoValue \<rparr>]
          else if n = 0 then
            [\<lparr> issue_type = side @ ''_table_is_empty'',
               description = Side @ '' table '' @ quote @ fstr name @ quote @ '' is empty.'',
               severity = WARNING, source_value = NoValue, target_value = NoValue \<rparr>]
          else [])"

definition unknown_or_not_positive :: "int option \<Rightarrow> bool" where
  "unknown_or_not_positive c = (case c of None \<Rightarrow> True | Some n \<Rightarrow> n \<le> 0)"

definition percent_diff :: "int \<Rightarrow> int \<Rightarrow> rat" where
  "percent_diff source_cnt target_cnt =
     (if source_cnt = 0 then 100
      else - (of_int (source_cnt - target_cnt)) / of_int source_cnt * 100)"

text \<open>The severity and the issue kind of a row-count mismatch, from the two thresholds.\<close>

definition row_count_severity :: "rat \<Rightarrow> rat \<Rightarrow> int \<Rightarrow> int \<Rightarrow> ValidationStatus \<times> string" where
  "row_count_severity failure_threshold warning_threshold source_cnt target_cnt =
     (let pd = percent_diff source_cnt target_cnt
      in if \<bar>pd\<bar> \<le> warning_threshold then
           (PASS, ''row_count_mismatch<='' @ format_fixed 1 warning_threshold @ ''%'')
         else if \<bar>pd\<bar> > failure_threshold then
           (let sev = FAIL;
                kind = ''row_count_mismatch>'' @ format_fixed 1 failure_threshold @ ''%''
            in if source_cnt < target_cnt
               then (WARNING, ''target_has_more_'' @ format_fixed 1 pd @ ''%_data'')
               else (sev, kind))
         else (WARNING, ''row_count_mismatch''))"

definition failure_row_count_difference_threshold :: "validation_settings \<Rightarrow> rat" where
  "failure_row_count_difference_threshold vs =
     (case row_count_difference_threshold_failure vs of Some x \<Rightarrow> x | None \<Rightarrow> 5)"

definition warning_row_count_difference_threshold :: "validation_settings \<Rightarrow> rat" where
  "warning_row_count_difference_threshold vs =
     (case row_count_difference_threshold_success vs of Some x \<Rightarrow> x | None \<Rightarrow> 1)"

definition check_row_counts ::
  "validation_settings option \<Rightarrow> int option \<Rightarrow> int option \<Rightarrow> DataMatchValidationResult
     \<Rightarrow> exception + DataMatchValidationResult" where
  "check_row_counts settings source_cnt target_cnt result =
     (case (source_cnt, target_cnt) of
        (Some s, Some t) \<Rightarrow>
          if s \<noteq> t then
            (case settings of
               None \<Rightarrow> Inl (KeyError ''validation_settings'')
             | Some vs \<Rightarrow>
                 let (sev, kind) = row_count_severity (failure_row_count_difference_threshold vs)
                                     (warning_row_count_difference_threshold vs) s t
                 in Inr (result
                     \<lparr> status := sev,
                       row_count_validation_issues := row_count_validation_issues result @
                         [\<lparr> issue_type = kind,
                            description = ''Row count mismatch: source='' @ show_int s
                              @ '', target='' @ show_int t @ '' (''
                              @ format_fixed 2 (percent_diff s t) @ ''% difference)'',
                            severity = sev, source_value = CountValue s,
                            target_value = CountValue t \<rparr>] \<rparr>))
          else Inr result
      | _ \<Rightarrow> Inr result)"

fun merge_issues :: "ValidationIssue list \<Rightarrow> DataMatchValidationResult \<Rightarrow> DataMatchValidationResult" where
  "merge_issues [] result = result"
| "merge_issues (issue # rest) result =
     merge_issues rest
       (if issue \<notin> set (data_match_validation_issues result)
        then result\<lparr> data_match_validation_issues := data_match_validation_issues result @ [issue],
                      status := raise_status_level_to (status result) (severity issue) \<rparr>
        else result)"

definition success_rate_status :: "validation_settings \<Rightarrow> rat \<Rightarrow> ValidationStatus" where
  "success_rate_status vs success_rate =
     (if \<bar>success_rate\<bar> < (case data_validation_threshold_warning vs of Some x \<Rightarrow> x | None \<Rightarrow> 95)
      then FAIL
      else if \<bar>success_rate\<bar> < (case data_validation_threshold_success vs of Some x \<Rightarrow> x | None \<Rightarrow> 99)
      then WARNING
      else PASS)"

definition data_validation ::
  "('v \<Rightarrow> 'v) option \<Rightarrow> validation_settings option \<Rightarrow> 'v db_answers \<Rightarrow> TableMapping \<Rightarrow> int option
     \<Rightarrow> int option \<Rightarrow> int option \<Rightarrow> DataMatchValidationResult
     \<Rightarrow> exception + DataMatchValidationResult" where
  "data_validation tr settings db mapping sample_size0 source_cnt target_cnt result =
     (if source_cnt = Some 0 \<and> target_cnt = Some 0 then
        Inr (result\<lparr> status := raise_status_level_to (status result) PASS \<rparr>)
      else if key_columns mapping = None \<or> key_columns mapping = Some [] then
        Inr (result\<lparr> data_match_validation_issues := data_match_validation_issues result @
               [\<lparr> issue_type = ''no_key_columns'',
                  description = ''Skip Data validation because no key columns are defined.'',
                  severity = WARNING, source_value = count_value source_cnt,
                  target_value = count_value target_cnt \<rparr>] \<rparr>)
      else
        case compare_sample_data tr mapping sample_size0 (source_fetch db) (target_fetch db)
               (sub_validation db) of
          Inl e \<Rightarrow> Inl e
        | Inr compared \<Rightarrow>
            let result1 = result\<lparr> compare_sample_data_result := Some compared \<rparr>;
                result2 = merge_issues (cs_data_match_validation_issues compared) result1;
                result3 = result2\<lparr> matching_records :=
                            interpolated_matching_records_of_tables_from_success_rate compared \<rparr>;
                success_rate = interpolated_success_rate_of_tables_from_success_rate_of_2_sets compared
            in case settings of
                 None \<Rightarrow> Inl (KeyError ''validation_settings'')
               | Some vs \<Rightarrow>
                   let rate_status = success_rate_status vs success_rate;
                       result4 =
                         (if \<bar>success_rate\<bar> < 100 then
                            result3\<lparr> data_match_validation_issues :=
                              data_match_validation_issues result3 @
                              [\<lparr> issue_type = format_fixed 2 success_rate @ ''% matched data'',
                                 description = ''Data validation: '' @ format_fixed 2 success_rate
                                               @ ''% success'',
                                 severity = rate_status, source_value = count_value source_cnt,
                                 target_value = count_value target_cnt \<rparr>] \<rparr>
                          else result3)
                   in Inr (result4\<lparr> status := raise_status_level_to (status result4) rate_status \<rparr>))"

definition validate_single_table_data ::
  "('v \<Rightarrow> 'v) option \<Rightarrow> validation_settings option \<Rightarrow> 'v db_answers \<Rightarrow> TableMapping \<Rightarrow> int option
     \<Rightarrow> exception + DataMatchValidationResult" where
  "validate_single_table_data tr settings db mapping sample_size0 =
     (let enabled = (case settings of
                       None \<Rightarrow> True
                     | Some vs \<Rightarrow> (case enable_row_count_validation vs of None \<Rightarrow> True | Some b \<Rightarrow> b));
          source_cnt = (if enabled then (if source_exists db then source_rows db else None) else None);
          target_cnt = (if enabled then (if target_exists db then target_rows db else None) else None);
          issues = side_issues ''source'' ''Source'' (source_exists db) (source_table mapping) source_cnt
                   @ side_issues ''target'' ''Target'' (target_exists db) (target_table mapping) target_cnt
      in if unknown_or_not_positive source_cnt \<and> unknown_or_not_positive target_cnt then
           Inr \<lparr> table_name = source_table mapping,
                 dm_source_table = source_table mapping,
                 dm_target_table = target_table mapping,
                 dm_key_columns = key_columns mapping,
                 dm_unique_data_mapping_id = unique_data_mapping_id mapping,
                 status = FAIL,
                 dm_group = group_name mapping,
                 source_table_exist = source_exists db,
                 target_table_exist = target_exists db,
                 source_table_or_view = source_kind db,
                 target_table_or_view = target_kind db,
                 source_count = to_positive_integer source_cnt,
                 target_count = to_positive_integer target_cnt,
                 matching_records = 0,
                 dm_sample_size = sample_size0,
                 dm_data_transformation_rules = data_transformation_rules mapping,
                 row_count_validation_issues = issues,
                 data_match_validation_issues = issues,
                 compare_sample_data_result = None \<rparr>
         else
           let result =
                 \<lparr> table_name = source_table mapping,
                   dm_source_table = source_table mapping,
                   dm_target_table = target_table mapping,
                   dm_key_columns = key_columns mapping,
                   dm_unique_data_mapping_id = unique_data_mapping_id mapping,
                   status = PASS,
                   dm_group = group_name mapping,
                   source_table_exist = True,
                   target_table_exist = True,
                   source_table_or_view = source_kind db,
                   target_table_or_view = target_kind db,
                   source_count = to_positive_integer source_cnt,
                   target_count = to_positive_integer target_cnt,
                   matching_records = 0,
                   dm_sample_size = sample_size0,
                   dm_data_transformation_rules = data_transformation_rules mapping,
                   row_count_validation_issues = [],
                   data_match_validation_issues = [],
                   compare_sample_data_result = None \<rparr>
           in case check_row_counts settings source_cnt target_cnt result of
                Inl e \<Rightarrow> Inl e
              | Inr checked \<Rightarrow>
                  data_validation tr settings db mapping sample_size0 source_cnt target_cnt checked)"

section \<open>Running the data tasks (DatabaseTransitionValidator._validate_data)\<close>

text \<open>
  One task is submitted per mapping, in the order of the list; \<open>task i mapping\<close> is the
  outcome of the \<open>i\<close>-th submitted task, the result it returns or the exception it raises.
  The futures are then visited in the order in which the tasks complete, which the
  scheduler decides: \<open>as_completed\<close> is that order. The body of the \<open>try\<close> appends the
  result of a finished task, the handler appends a result built from the mapping and the
  exception. Logging is not modelled.
\<close>

definition data_validation_error_result :: "TableMapping \<Rightarrow> exception \<Rightarrow> DataMatchValidationResult" where
  "data_validation_error_result mapping e =
     \<lparr> table_name = source_table mapping,
       dm_source_table = source_table mapping,
       dm_target_table = target_table mapping,
       dm_key_columns = key_columns mapping,
       dm_unique_data_mapping_id = unique_data_mapping_id mapping,
       status = FAIL,
       dm_group = group_name mapping,
       source_table_exist = True,
       target_table_exist = True,
       source_table_or_view = Some [],
       target_table_or_view = Some [],
       source_count = 0,
       target_count = 0,
       matching_records = 0,
       dm_sample_size = Some 0,
       dm_data_transformation_rules = None,
       row_count_validation_issues = [],
       data_match_validation_issues =
         [\<lparr> issue_type = ''data_validation_error'',
            description = ''Data validation failed: '' @ exception_text e,
            severity = FAIL, source_value = NoValue, target_value = NoValue \<rparr>],
       compare_sample_data_result = None \<rparr>"

definition collect_result ::
  "TableMapping \<times> (exception + DataMatchValidationResult) \<Rightarrow> DataMatchValidationResult" where
  "collect_result future =
     (case future of
        (mapping, Inr result) \<Rightarrow> result
      | (mapping, Inl e) \<Rightarrow> data_validation_error_result mapping e)"

definition submit_all ::
  "(nat \<Rightarrow> TableMapping \<Rightarrow> exception + DataMatchValidationResult) \<Rightarrow> TableMapping list
     \<Rightarrow> (TableMapping \<times> (exception + DataMatchValidationResult)) list" where
  "submit_all task table_mappings = map (\<lambda>(i, mapping). (mapping, task i mapping)) (enumerate 0 table_mappings)"

definition validate_data ::
  "(nat \<Rightarrow> TableMapping \<Rightarrow> exception + DataMatchValidationResult)
     \<Rightarrow> ((TableMapping \<times> (exception + DataMatchValidationResult)) list
          \<Rightarrow> (TableMapping \<times> (exception + DataMatchValidationResult)) list)
     \<Rightarrow> TableMapping list \<Rightarrow> DataMatchValidationResult list" where
  "validate_data task as_completed table_mappings =
     map collect_result (as_completed (submit_all task table_mappings))"

section \<open>The run-level result (data_class/OverallValidationResult.py)\<close>

text \<open>Of the overall result, the run identifier and the list of table data results.\<close>

record OverallValidationResult =
  validation_id :: string
  data_match_validation_result :: "DataMatchValidationResult list"

definition overall_status_table_result :: "OverallValidationResult \<Rightarrow> ValidationStatus" where
  "overall_status_table_result self =
     (if data_match_validation_result self = [] then SKIP
      else
        let failed_tables = filter (\<lambda>r. status r = FAIL) (data_match_validation_result self);
            warning_tables = filter (\<lambda>r. status r = WARNING) (data_match_validation_result self)
        in if failed_tables \<noteq> [] then FAIL
           else if warning_tables \<noteq> [] then WARNING
           else PASS)"

section \<open>Rule-based column validation (DatabaseTransitionValidator._rule_based_data_validation)\<close>

text \<open>
  A sampled value is \<open>None\<close>, a NaN, an integer, a finite float or a string. The normaliser
  looks only at whether the value is a number and at its text, so a finite float is given
  by the text \<open>str\<close> shows for it.
\<close>

datatype item_data = PyNone | PyNaN | PyInt int | PyFloat string | PyStr string

fun str_item :: "item_data \<Rightarrow> string" where
  "str_item PyNone = ''None''"
| "str_item PyNaN = ''nan''"
| "str_item (PyInt i) = show_int i"
| "str_item (PyFloat s) = s"
| "str_item (PyStr s) = s"

fun item_is_na :: "item_data \<Rightarrow> bool" where
  "item_is_na PyNone = True"
| "item_is_na PyNaN = True"
| "item_is_na _ = False"

fun item_is_number :: "item_data \<Rightarrow> bool" where
  "item_is_number PyNone = False"
| "item_is_number (PyStr s) = False"
| "item_is_number _ = True"

definition endswith :: "string \<Rightarrow> string \<Rightarrow> bool" where
  "endswith s suffix = (length suffix \<le> length s \<and> drop (length s - length suffix) s = suffix)"

definition normalize_item_data_end_with_dot_0 :: "item_data \<Rightarrow> string" where
  "normalize_item_data_end_with_dot_0 item =
     (let item_data_str = str_item item
      in if item_is_number item \<and> endswith item_data_str ''.0'' \<and> length item_data_str > 2
         then take (length item_data_str - 2) item_data_str
         else item_data_str)"

definition text_mean_none :: "string \<Rightarrow> bool" where
  "text_mean_none text =
     (lower (strip text) \<in> set [''none'', ''nan'', ''null'', ''n/a'', ''na'', [], ''undefined''])"

text \<open>The \<open>nullable\<close> and \<open>unique\<close> options: absent, a string, or a boolean.\<close>

definition rule_flag :: "rule_value option \<Rightarrow> bool" where
  "rule_flag v =
     (case v of
        None \<Rightarrow> False
      | Some (RStr s) \<Rightarrow> lower (strip s) = ''true''
      | Some (RBool b) \<Rightarrow> b)"

text \<open>
  The rule as the code completes it when it has no \<open>pattern\<close>: the pattern that accepts any
  value, and a description of it that names the two options.
\<close>

definition default_description :: "bool \<Rightarrow> bool \<Rightarrow> string" where
  "default_description value_must_be_unique value_can_be_null =
     ''Accept any value'' @
       (if value_must_be_unique \<or> \<not> value_can_be_null
        then '' ('' @ join '' and '' ((if value_must_be_unique then [''Have to be unique''] else [])
                                       @ (if \<not> value_can_be_null then [''not null''] else [])) @ '')''
        else [])"

definition complete_rule :: "rule \<Rightarrow> rule" where
  "complete_rule r =
     (if map_of r ''pattern'' = None then
        r @ [(''pattern'', RStr ''^.*$'')]
          @ (if map_of r ''pattern_regex_description'' = None
             then [(''pattern_regex_description'',
                    RStr (default_description (rule_flag (map_of r ''unique''))
                                              (rule_flag (map_of r ''nullable''))))]
             else [])
      else r)"

text \<open>
  The check of one value. The state is the set of values that matched so far, the set of
  values that did not, and the number of failed records of the column.
\<close>

definition check_item ::
  "(string \<Rightarrow> bool) \<Rightarrow> bool \<Rightarrow> bool \<Rightarrow> item_data \<Rightarrow> string set \<times> string set \<times> int
     \<Rightarrow> string set \<times> string set \<times> int" where
  "check_item fullmatch value_can_be_null value_must_be_unique item state =
     (case state of (matched_set, non_matched_set, failed) \<Rightarrow>
        let item_data_is_none = item_is_na item;
            normalized_item_data = normalize_item_data_end_with_dot_0 item
        in if (item_data_is_none \<or> text_mean_none normalized_item_data) \<and> value_can_be_null then
             (insert normalized_item_data matched_set, non_matched_set, failed)
           else if value_must_be_unique \<and> normalized_item_data \<in> matched_set then
             (matched_set, insert normalized_item_data non_matched_set, failed + 1)
           else if \<not> fullmatch normalized_item_data then
             (matched_set, insert normalized_item_data non_matched_set, failed + 1)
           else
             (insert normalized_item_data matched_set, non_matched_set, failed))"

fun check_items ::
  "(string \<Rightarrow> bool) \<Rightarrow> bool \<Rightarrow> bool \<Rightarrow> item_data list \<Rightarrow> string set \<times> string set \<times> int
     \<Rightarrow> string set \<times> string set \<times> int" where
  "check_items fullmatch can_be_null must_be_unique [] state = state"
| "check_items fullmatch can_be_null must_be_unique (item # rest) state =
     check_items fullmatch can_be_null must_be_unique rest
       (check_item fullmatch can_be_null must_be_unique item state)"

text \<open>
  The counters of one column: passed and failed records, and the sets of failing and of
  passing values. \<open>re_compile\<close> is the regular-expression library: it answers \<open>None\<close> for a
  pattern it rejects, and otherwise the full-match test of the compiled pattern.
\<close>

record column_counts =
  passed_count :: int
  failed_count :: int
  failed_set :: "string set"
  success_set :: "string set"

fun check_rule_keys ::
  "(string \<Rightarrow> (string \<Rightarrow> bool) option) \<Rightarrow> bool \<Rightarrow> bool \<Rightarrow> item_data list \<Rightarrow> rule
     \<Rightarrow> column_counts \<Rightarrow> exception + column_counts" where
  "check_rule_keys re_compile can_be_null must_be_unique column_data [] counts = Inr counts"
| "check_rule_keys re_compile can_be_null must_be_unique column_data ((key, v) # rest) counts =
     (if lower key = ''pattern'' then
        (case v of
           RBool b \<Rightarrow> Inl (TypeError ''first argument must be string or compiled pattern'')
         | RStr pattern \<Rightarrow>
            (case re_compile pattern of
               None \<Rightarrow> Inl (ReError pattern)
             | Some fullmatch \<Rightarrow>
                 (case check_items fullmatch can_be_null must_be_unique column_data
                         ({}, {}, failed_count counts) of
                    (matched_set, non_matched_set, failed) \<Rightarrow>
                      check_rule_keys re_compile can_be_null must_be_unique column_data rest
                        \<lparr> passed_count = passed_count counts + (int (length column_data) - failed),
                          failed_count = failed,
                          failed_set = (if non_matched_set \<noteq> {} then non_matched_set
                                        else failed_set counts),
                          success_set = (if matched_set \<noteq> {} then matched_set
                                         else success_set counts) \<rparr>)))
      else check_rule_keys re_compile can_be_null must_be_unique column_data rest counts)"

definition validate_column ::
  "(string \<Rightarrow> (string \<Rightarrow> bool) option) \<Rightarrow> rule \<Rightarrow> item_data list option
     \<Rightarrow> exception + column_counts" where
  "validate_column re_compile r column_data =
     (let start = \<lparr> passed_count = 0, failed_count = 0, failed_set = {}, success_set = {} \<rparr>
      in case column_data of
           None \<Rightarrow> Inr start
         | Some items \<Rightarrow>
             check_rule_keys re_compile (rule_flag (map_of r ''nullable''))
               (rule_flag (map_of r ''unique'')) items (complete_rule r) start)"

text \<open>
  The whole validator. A data frame is the list of its columns, each with its values; its
  length is the number of rows. Of the result, the record counts per column are kept; the
  bounded samples of values prepared for the report are left out.
\<close>

type_synonym data_frame = "(string \<times> item_data list) list"

definition len_data :: "data_frame \<Rightarrow> int" where
  "len_data data = (case data of [] \<Rightarrow> 0 | (name, items) # rest \<Rightarrow> int (length items))"

record RuleBasedDataValidationResult =
  rb_table_mapping :: TableMapping
  total_records :: int
  passed_records_count :: "(string \<times> int) list"
  failed_records_count :: "(string \<times> int) list"

fun validate_columns ::
  "(string \<Rightarrow> (string \<Rightarrow> bool) option) \<Rightarrow> data_frame \<Rightarrow> (string \<times> rule) list
     \<Rightarrow> exception + (string \<times> column_counts) list" where
  "validate_columns re_compile data [] = Inr []"
| "validate_columns re_compile data ((column_name, r) # rest) =
     (case validate_column re_compile r (map_of data column_name) of
        Inl e \<Rightarrow> Inl e
      | Inr counts \<Rightarrow>
          (case validate_columns re_compile data rest of
             Inl e \<Rightarrow> Inl e
           | Inr others \<Rightarrow> Inr ((column_name, counts) # others)))"

definition rule_based_data_validation_of ::
  "(string \<Rightarrow> (string \<Rightarrow> bool) option) \<Rightarrow> data_frame option \<Rightarrow> TableMapping
     \<Rightarrow> exception + RuleBasedDataValidationResult option" where
  "rule_based_data_validation_of re_compile data mapping =
     (case (rule_based_data_validation mapping, data) of
        (Some rules, Some frame) \<Rightarrow>
          if rules = [] then Inr None
          else
            let key_columns_set = set (case key_columns mapping of Some cols \<Rightarrow> cols | None \<Rightarrow> []);
                filtered_rules = filter (\<lambda>(k, v). k \<in> key_columns_set) rules
            in if filtered_rules = [] then Inr None
               else
                 (case validate_columns re_compile frame filtered_rules of
                    Inl e \<Rightarrow> Inl e
                  | Inr counted \<Rightarrow>
                      Inr (Some \<lparr> rb_table_mapping = mapping,
                                  total_records = len_data frame,
                                  passed_records_count = map (\<lambda>(c, n). (c, passed_count n)) counted,
                                  failed_records_count = map (\<lambda>(c, n). (c, failed_count n)) counted \<rparr>))
      | _ \<Rightarrow> Inr None)"

text \<open>
  A regular-expression library that knows the one pattern the code itself supplies:
  \<open>^.*$\<close> fully matches exactly the strings without a line feed.
\<close>

definition re_compile_default :: "string \<Rightarrow> (string \<Rightarrow> bool) option" where
  "re_compile_default pattern =
     (if pattern = ''^.*$'' then Some (\<lambda>s. CHR 0x0A \<notin> set s) else None)"

section \<open>Concrete inputs\<close>

text \<open>Whether a construction ended in the \<open>TypeError\<close> of joining \<open>None\<close>.\<close>

definition is_TypeError :: "exception + 'a \<Rightarrow> bool" where
  "is_TypeError r = (case r of Inl (TypeError m) \<Rightarrow> True | _ \<Rightarrow> False)"

text \<open>A table data result whose status is \<open>SKIP\<close>.\<close>

definition skipped_table :: DataMatchValidationResult where
  "skipped_table =
     (data_validation_error_result TableMapping_defaults (ValueError []))\<lparr> status := SKIP \<rparr>"

text \<open>
  Mappings for the identifier: one whose key columns repeat a name, the same mapping with
  a group and a sample size, and one with two different key columns.
\<close>

definition duplicate_keys_mapping :: TableMapping where
  "duplicate_keys_mapping =
     TableMapping_defaults\<lparr> source_table := Some ''src'', target_table := Some ''tgt'',
       key_columns := Some [''a'', ''a''], data_transformation_rules := Some [] \<rparr>"


definition two_keys_mapping :: TableMapping where
  "two_keys_mapping =
     TableMapping_defaults\<lparr> source_table := Some ''src'', key_columns := Some [''b '', ''a''],
       data_transformation_rules := Some [''normalize_null_nan''] \<rparr>"

text \<open>
  Two existing tables with known row counts and fetched key samples, the settings of the
  row-count scenario (failure threshold 5, success threshold 1), a mapping with the key
  column \<open>ID\<close>, and four runs of the data task on them.
\<close>

definition table_answers :: "int \<Rightarrow> int \<Rightarrow> int list list \<Rightarrow> int list list \<Rightarrow> int db_answers" where
  "table_answers s t rows_s rows_t =
     \<lparr> source_exists = True, source_kind = Some ''table'',
       target_exists = True, target_kind = Some ''table'',
       source_rows = Some s, target_rows = Some t,
       source_fetch = Inr (Some rows_s), target_fetch = Inr (Some rows_t),
       sub_validation = None \<rparr>"

definition scenario_settings :: validation_settings where
  "scenario_settings =
     \<lparr> enable_row_count_validation = None,
       row_count_difference_threshold_failure = Some 5,
       row_count_difference_threshold_success = Some 1,
       data_validation_threshold_warning = None,
       data_validation_threshold_success = None \<rparr>"

definition id_mapping :: TableMapping where
  "id_mapping =
     TableMapping_defaults\<lparr> source_table := Some ''src'', target_table := Some ''tgt'',
       key_columns := Some [''ID''], data_transformation_rules := Some [],
       unique_data_mapping_id := Some ''src|tgt|ID|'' \<rparr>"








text \<open>
  A task that raises for the first submitted mapping: its settings lack the
  \<open>validation_settings\<close> dictionary, and the row counts differ.
\<close>

definition failing_task :: "nat \<Rightarrow> TableMapping \<Rightarrow> exception + DataMatchValidationResult" where
  "failing_task i mapping =
     validate_single_table_data None (if i = 0 then None else Some scenario_settings)
       (table_answers 1000 950 [[1], [2]] [[1], [2]]) mapping (Some 2)"

text \<open>
  The rule scenario: the key column \<open>ID\<close> with the rule \<open>nullable = False\<close>,
  \<open>unique = True\<close> and no pattern, and the sampled values 1, 1, 2 and a null, once as
  integers with \<open>None\<close> and once as floats with a NaN, the form a numeric column with a
  missing value has in a data frame. \<open>record_counts\<close> reads the two counters off a result.
\<close>

definition unique_not_null_mapping :: TableMapping where
  "unique_not_null_mapping =
     TableMapping_defaults\<lparr> source_table := Some ''src'', target_table := Some ''tgt'',
       key_columns := Some [''ID''], data_transformation_rules := Some [],
       rule_based_data_validation :=
         Some [(''ID'', [(''nullable'', RBool False), (''unique'', RBool True)])] \<rparr>"

definition sampled_ids :: data_frame where
  "sampled_ids = [(''ID'', [PyInt 1, PyInt 1, PyInt 2, PyNone])]"

definition sampled_ids_as_floats :: data_frame where
  "sampled_ids_as_floats = [(''ID'', [PyFloat ''1.0'', PyFloat ''1.0'', PyFloat ''2.0'', PyNaN])]"

definition record_counts ::
  "exception + RuleBasedDataValidationResult option
     \<Rightarrow> exception + ((string \<times> int) list \<times> (string \<times> int) list) option" where
  "record_counts outcome =
     map_sum id (map_option (\<lambda>r. (passed_records_count r, failed_records_count r))) outcome"

section \<open>Severity escalation\<close>

text \<open>
  Claim C4. \<open>raise_status_level_to\<close> returns one of its two arguments, the one of higher
  rank in the order SKIP < PASS < WARNING < FAIL; it is commutative, idempotent and
  associative on the four levels, and FAIL absorbs every level.
\<close>

theorem escalate_is_join:
  "SEVERITY_ORDER SKIP < SEVERITY_ORDER PASS
   \<and> SEVERITY_ORDER PASS < SEVERITY_ORDER WARNING
   \<and> SEVERITY_ORDER WARNING < SEVERITY_ORDER FAIL
   \<and> (raise_status_level_to a b = a \<or> raise_status_level_to a b = b)
   \<and> SEVERITY_ORDER (raise_status_level_to a b) = max (SEVERITY_ORDER a) (SEVERITY_ORDER b)
   \<and> raise_status_level_to a b = raise_status_level_to b a
   \<and> raise_status_level_to a a = a
   \<and> raise_status_level_to (raise_status_level_to a b) c
       = raise_status_level_to a (raise_status_level_to b c)
   \<and> raise_status_level_to FAIL a = FAIL
   \<and> raise_status_level_to a FAIL = FAIL"
  by (cases a; cases b; cases c; simp add: raise_status_level_to_def)

section \<open>The run-level table status\<close>

text \<open>
  Claim C10. The run-level table status is SKIP exactly when the list of table data
  results is empty; otherwise it is FAIL if some table failed, else WARNING if some table
  has a warning, else PASS. A run whose tables all have status SKIP reports PASS.
\<close>

theorem overall_status_table_result_cases:
  "(overall_status_table_result ov = SKIP \<longleftrightarrow> data_match_validation_result ov = [])
   \<and> overall_status_table_result ov =
        (if data_match_validation_result ov = [] then SKIP
         else if \<exists>r\<in>set (data_match_validation_result ov). status r = FAIL then FAIL
         else if \<exists>r\<in>set (data_match_validation_result ov). status r = WARNING then WARNING
         else PASS)
   \<and> (data_match_validation_result ov \<noteq> []
        \<and> (\<forall>r\<in>set (data_match_validation_result ov). status r = SKIP)
        \<longrightarrow> overall_status_table_result ov = PASS)"
  by (auto simp add: overall_status_table_result_def Let_def filter_empty_conv)

theorem overall_status_table_result_witness:
  "overall_status_table_result
     \<lparr> validation_id = ''run'', data_match_validation_result = [skipped_table, skipped_table] \<rparr> = PASS
   \<and> overall_status_table_result
       \<lparr> validation_id = ''run'', data_match_validation_result = [] \<rparr> = SKIP"
  using overall_status_table_result_cases
          [of "\<lparr> validation_id = ''run'', data_match_validation_result = [skipped_table, skipped_table] \<rparr>"]
        overall_status_table_result_cases
          [of "\<lparr> validation_id = ''run'', data_match_validation_result = [] \<rparr>"]
  by (simp add: skipped_table_def)

section \<open>Constructing a table mapping\<close>

text \<open>
  Claim C9. Constructing a mapping ends in the \<open>TypeError\<close> of joining \<open>None\<close> exactly when
  a table name is given, no identifier is supplied (it is \<open>None\<close> or empty) and the
  transformation rules are left as \<open>None\<close>. A supplied identifier avoids the error, and so
  does any list of rules, the empty one included.
\<close>

theorem post_init_type_error:
  "is_TypeError (post_init set_iter m) \<longleftrightarrow>
     \<not> (falsy_str (source_table m) \<and> falsy_str (target_table m))
     \<and> falsy_str (unique_data_mapping_id m)
     \<and> data_transformation_rules m = None"
  by (cases "data_transformation_rules m") (simp_all add: post_init_def is_TypeError_def Let_def)

theorem post_init_type_error_witness:
  "is_TypeError (post_init remdups (TableMapping_defaults\<lparr> source_table := Some ''src'' \<rparr>))
   \<and> \<not> is_TypeError (post_init remdups
            (TableMapping_defaults\<lparr> source_table := Some ''src'',
               data_transformation_rules := Some [] \<rparr>))
   \<and> \<not> is_TypeError (post_init remdups
            (TableMapping_defaults\<lparr> source_table := Some ''src'',
               unique_data_mapping_id := Some ''m1'' \<rparr>))"
  using post_init_type_error [of remdups "TableMapping_defaults\<lparr> source_table := Some ''src'' \<rparr>"]
        post_init_type_error [of remdups "TableMapping_defaults\<lparr> source_table := Some ''src'',
               data_transformation_rules := Some [] \<rparr>"]
        post_init_type_error [of remdups "TableMapping_defaults\<lparr> source_table := Some ''src'',
               unique_data_mapping_id := Some ''m1'' \<rparr>"]
  by (simp add: TableMapping_defaults_def falsy_str_def)

section \<open>The generated identifier\<close>

lemmas eval_post_init =
  post_init_def TableMapping_defaults_def falsy_str_def clean_key_columns_def strip_def is_space_def






lemma set_order_of_singleton:
  assumes "distinct (set_iter [x, x])" and "set (set_iter [x, x]) = set [x, x]"
  shows "set_iter [x, x] = [x]"
proof (cases "set_iter [x, x]")
  case Nil
  with assms(2) show ?thesis by simp
next
  case (Cons y ys)
  with assms have "y = x" and "set ys \<subseteq> {x}" and "x \<notin> set ys" by auto
  then have "ys = []" by (cases ys) auto
  with Cons \<open>y = x\<close> show ?thesis by simp
qed

text \<open>
  With two different key columns the identifier follows the iteration order of the set:
  two orders give two identifiers for the same mapping.
\<close>

lemma identifier_depends_on_set_order:
  "unique_data_mapping_id (projr (post_init remdups two_keys_mapping))
     = Some ''src|src|b,a|normalize_null_nan''
   \<and> unique_data_mapping_id (projr (post_init (rev \<circ> remdups) two_keys_mapping))
     = Some ''src|src|a,b|normalize_null_nan''"
  by (simp add: two_keys_mapping_def eval_post_init)

section \<open>Row counts of one table\<close>



















section \<open>The sampled key sets and the success rates\<close>







lemma compare_sample_data_result:
  "compare_sample_data tr mapping n (Inr ss) (Inr ts) None
     = Inr (projr (compare_sample_data tr mapping n (Inr ss) (Inr ts) None))"
  by (simp add: compare_sample_data_def Let_def)








section \<open>Failure isolation in the data phase\<close>

lemma collect_submitted:
  "map collect_result (submit_all task table_mappings) =
     map (\<lambda>(i, mapping). case task i mapping of
                             Inr result \<Rightarrow> result
                           | Inl e \<Rightarrow> data_validation_error_result mapping e)
         (enumerate 0 table_mappings)"
  by (simp add: submit_all_def collect_result_def split_beta)

lemma validate_data_mset:
  assumes "mset (as_completed (submit_all task table_mappings)) = mset (submit_all task table_mappings)"
  shows "mset (validate_data task as_completed table_mappings) =
           mset (map collect_result (submit_all task table_mappings))"
  using assms by (simp add: validate_data_def)

lemma data_validation_error_result_fields:
  "status (data_validation_error_result mapping e) = FAIL"
  "dm_unique_data_mapping_id (data_validation_error_result mapping e) = unique_data_mapping_id mapping"
  "dm_source_table (data_validation_error_result mapping e) = source_table mapping"
  "dm_target_table (data_validation_error_result mapping e) = target_table mapping"
  "map severity (data_match_validation_issues (data_validation_error_result mapping e)) = [FAIL]"
  "map description (data_match_validation_issues (data_validation_error_result mapping e))
     = [''Data validation failed: '' @ exception_text e]"
  by (simp_all add: data_validation_error_result_def)

text \<open>
  Claim C7. Whatever the tasks do and in whatever order they complete, the data phase
  returns a list with one result per mapping: the result a task returned, or, for a task
  that raised, a result for its mapping with status FAIL whose issue carries the text of
  the exception. The list is a plain value; no exception of a task reaches the caller.
\<close>

theorem validate_data_isolates_failures:
  assumes "mset (as_completed (submit_all task table_mappings)) = mset (submit_all task table_mappings)"
  shows "length (validate_data task as_completed table_mappings) = length table_mappings
         \<and> mset (validate_data task as_completed table_mappings) =
             mset (map (\<lambda>(i, mapping). case task i mapping of
                                          Inr result \<Rightarrow> result
                                        | Inl e \<Rightarrow> data_validation_error_result mapping e)
                       (enumerate 0 table_mappings))
         \<and> (\<forall>i < length table_mappings. \<forall>e. task i (table_mappings ! i) = Inl e \<longrightarrow>
               data_validation_error_result (table_mappings ! i) e
                 \<in> set (validate_data task as_completed table_mappings)
               \<and> status (data_validation_error_result (table_mappings ! i) e) = FAIL
               \<and> dm_unique_data_mapping_id (data_validation_error_result (table_mappings ! i) e)
                   = unique_data_mapping_id (table_mappings ! i)
               \<and> map description
                    (data_match_validation_issues (data_validation_error_result (table_mappings ! i) e))
                   = [''Data validation failed: '' @ exception_text e])
         \<and> (\<forall>i < length table_mappings. \<forall>result. task i (table_mappings ! i) = Inr result \<longrightarrow>
               result \<in> set (validate_data task as_completed table_mappings))"
proof -
  let ?collected = "map (\<lambda>(i, mapping). case task i mapping of
                                          Inr result \<Rightarrow> result
                                        | Inl e \<Rightarrow> data_validation_error_result mapping e)
                       (enumerate 0 table_mappings)"
  have m: "mset (validate_data task as_completed table_mappings) = mset ?collected"
    using validate_data_mset [where as_completed = as_completed and task = task
            and table_mappings = table_mappings, OF assms]
    by (simp only: collect_submitted)
  have len: "length (validate_data task as_completed table_mappings) = length table_mappings"
    using mset_eq_length [OF m] by simp
  have set_eq: "set (validate_data task as_completed table_mappings) = set ?collected"
    using mset_eq_setD [OF m] .
  have mem: "(case task i (table_mappings ! i) of
                Inr result \<Rightarrow> result
              | Inl e \<Rightarrow> data_validation_error_result (table_mappings ! i) e)
             \<in> set (validate_data task as_completed table_mappings)"
    if "i < length table_mappings" for i
  proof -
    have "(i, table_mappings ! i) \<in> set (enumerate 0 table_mappings)"
      using that by (simp add: in_set_enumerate_eq)
    then have "(\<lambda>(i, mapping). case task i mapping of
                                   Inr result \<Rightarrow> result
                                 | Inl e \<Rightarrow> data_validation_error_result mapping e)
                 (i, table_mappings ! i) \<in> set ?collected"
      unfolding set_map by (rule imageI)
    then show ?thesis unfolding set_eq by simp
  qed
  have failed: "data_validation_error_result (table_mappings ! i) e
                  \<in> set (validate_data task as_completed table_mappings)"
    if "i < length table_mappings" and "task i (table_mappings ! i) = Inl e" for i e
    using mem [OF that(1)] that(2) by simp
  have returned: "result \<in> set (validate_data task as_completed table_mappings)"
    if "i < length table_mappings" and "task i (table_mappings ! i) = Inr result" for i result
    using mem [OF that(1)] that(2) by simp
  show ?thesis
  proof (intro conjI allI impI)
    show "length (validate_data task as_completed table_mappings) = length table_mappings"
      by (rule len)
    show "mset (validate_data task as_completed table_mappings) = mset ?collected"
      by (rule m)
  qed (simp_all only: failed returned data_validation_error_result_fields)
qed

lemma failing_task_raises:
  "failing_task 0 id_mapping = Inl (KeyError ''validation_settings'')"
  by (simp add: failing_task_def validate_single_table_data_def table_answers_def
        unknown_or_not_positive_def check_row_counts_def)

theorem validate_data_isolates_failures_witness:
  "length (validate_data failing_task rev [id_mapping, duplicate_keys_mapping]) = 2
   \<and> data_validation_error_result id_mapping (KeyError ''validation_settings'')
       \<in> set (validate_data failing_task rev [id_mapping, duplicate_keys_mapping])
   \<and> map description (data_match_validation_issues
        (data_validation_error_result id_mapping (KeyError ''validation_settings'')))
       = [''Data validation failed: '' @ quote @ ''validation_settings'' @ quote]"
proof -
  have p: "mset (rev (submit_all failing_task [id_mapping, duplicate_keys_mapping]))
             = mset (submit_all failing_task [id_mapping, duplicate_keys_mapping])"
    by (rule mset_rev)
  note t = validate_data_isolates_failures [where as_completed = rev and task = failing_task
         and table_mappings = "[id_mapping, duplicate_keys_mapping]", OF p]
  from t have len: "length (validate_data failing_task rev [id_mapping, duplicate_keys_mapping]) = 2"
    by simp
  from t have failed: "\<forall>i<length [id_mapping, duplicate_keys_mapping].
       \<forall>e. failing_task i ([id_mapping, duplicate_keys_mapping] ! i) = Inl e \<longrightarrow>
           data_validation_error_result ([id_mapping, duplicate_keys_mapping] ! i) e
             \<in> set (validate_data failing_task rev [id_mapping, duplicate_keys_mapping])
           \<and> status (data_validation_error_result ([id_mapping, duplicate_keys_mapping] ! i) e) = FAIL
           \<and> dm_unique_data_mapping_id (data_validation_error_result ([id_mapping, duplicate_keys_mapping] ! i) e)
               = unique_data_mapping_id ([id_mapping, duplicate_keys_mapping] ! i)
           \<and> map description
                (data_match_validation_issues
                   (data_validation_error_result ([id_mapping, duplicate_keys_mapping] ! i) e))
               = [''Data validation failed: '' @ exception_text e]"
    by (elim conjE)
  have i0: "(0::nat) < length [id_mapping, duplicate_keys_mapping]" by simp
  have r0: "failing_task 0 ([id_mapping, duplicate_keys_mapping] ! 0)
              = Inl (KeyError ''validation_settings'')"
    using failing_task_raises by simp
  from failed [rule_format, OF i0 r0] len show ?thesis by simp
qed

section \<open>The rule-based validator on nulls\<close>

text \<open>
  Claim C2. On the scenario the validator counts three passed records and one failed
  record, not two and two: the duplicate 1 fails, the null does not. The checks run in the
  order the claim gives, and that order lets the null through: it is not passed as a
  permitted null, it is not a duplicate, and its text \<open>None\<close> fully matches the default
  pattern, so it reaches the final passing branch.
\<close>

theorem unique_not_null_scenario_counts:
  "record_counts (rule_based_data_validation_of re_compile_default (Some sampled_ids)
                    unique_not_null_mapping)
     = Inr (Some ([(''ID'', 3)], [(''ID'', 1)]))"
  by code_simp

lemma unique_not_null_scenario_counts_floats:
  "record_counts (rule_based_data_validation_of re_compile_default (Some sampled_ids_as_floats)
                    unique_not_null_mapping)
     = Inr (Some ([(''ID'', 3)], [(''ID'', 1)]))"
  by code_simp

text \<open>
  The description the code itself attaches to this rule says that values must not be null.
\<close>

lemma described_as_not_null:
  "map_of (complete_rule [(''nullable'', RBool False), (''unique'', RBool True)])
          ''pattern_regex_description''
     = Some (RStr ''Accept any value (Have to be unique and not null)'')"
  by code_simp

text \<open>
  In general a null that is not permitted passes whenever its text matches the pattern
  and was not seen before.
\<close>

lemma disallowed_null_passes:
  assumes "item_is_na item" and "\<not> value_can_be_null"
      and "normalize_item_data_end_with_dot_0 item \<notin> matched_set"
      and "fullmatch (normalize_item_data_end_with_dot_0 item)"
  shows "check_item fullmatch value_can_be_null value_must_be_unique item
           (matched_set, non_matched_set, failed)
         = (insert (normalize_item_data_end_with_dot_0 item) matched_set, non_matched_set, failed)"
  using assms by (simp add: check_item_def Let_def)

end
